theory Spec2Isabelle
  imports Complex_Main "HOL-Library.Sublist"
begin

section \<open>Python strings\<close>

text \<open>
  A Python \<open>str\<close> is a sequence of Unicode code points and \<open>len\<close> counts code points, so a
  string is modelled as the list of its code points (\<open>ord\<close> of each character). The chunk size
  and the overlap of the chunker are measured in these units.
\<close>

type_synonym pystr = "int list"

definition py_len :: "'a list \<Rightarrow> int" where
  "py_len s = int (length s)"

text \<open>
  Slicing \<open>s[i:j]\<close>: a negative bound counts from the end, and every bound is clamped into
  \<open>0..len(s)\<close>; the slice is empty when the lower bound is not below the upper one.
\<close>

definition slice_index :: "int \<Rightarrow> int \<Rightarrow> nat" where
  "slice_index n i = (if i < 0 then nat (max 0 (n + i)) else nat (min i n))"

definition py_slice :: "'a list \<Rightarrow> int \<Rightarrow> int \<Rightarrow> 'a list" where
  "py_slice s i j = drop (slice_index (py_len s) i) (take (slice_index (py_len s) j) s)"

text \<open>\<open>s.rfind(c)\<close> for a one-character \<open>c\<close>: the highest index of \<open>c\<close> in \<open>s\<close>, or \<open>-1\<close>.\<close>

definition rfind :: "'a list \<Rightarrow> 'a \<Rightarrow> int" where
  "rfind s c =
     (if c \<in> set s then py_len s - 1 - int (length (takeWhile (\<lambda>x. x \<noteq> c) (rev s))) else - 1)"

text \<open>
  \<open>s.strip()\<close> removes leading and trailing whitespace; \<open>is_space\<close> lists the code points
  that \<open>str.isspace\<close> accepts.
\<close>

definition is_space :: "int \<Rightarrow> bool" where
  "is_space c \<longleftrightarrow>
     (9 \<le> c \<and> c \<le> 13) \<or> (28 \<le> c \<and> c \<le> 32) \<or> c = 133 \<or> c = 160 \<or> c = 5760 \<or>
     (8192 \<le> c \<and> c \<le> 8202) \<or> c = 8232 \<or> c = 8233 \<or> c = 8239 \<or> c = 8287 \<or> c = 12288"

definition strip :: "pystr \<Rightarrow> pystr" where
  "strip s = rev (dropWhile is_space (rev (dropWhile is_space s)))"

text \<open>\<open>sep.join(parts)\<close>.\<close>

fun join :: "pystr \<Rightarrow> pystr list \<Rightarrow> pystr" where
  "join sep [] = []"
| "join sep [p] = p"
| "join sep (p # q # ps) = p @ sep @ join sep (q # ps)"

text \<open>\<open>needle in hay\<close> for two strings: \<open>needle\<close> occurs as a contiguous block of \<open>hay\<close>.\<close>

fun contains :: "'a list \<Rightarrow> 'a list \<Rightarrow> bool" where
  "contains [] needle = (needle = [])"
| "contains (h # hay) needle = (prefix needle (h # hay) \<or> contains hay needle)"

section \<open>The chunker: \<open>split_text\<close> of \<open>rag_index.py\<close>\<close>

definition CHUNK_SIZE :: int where
  "CHUNK_SIZE = 500"

definition CHUNK_OVERLAP :: int where
  "CHUNK_OVERLAP = 50"

text \<open>
  One pass through the body of the \<open>while\<close> loop, from the cursor \<open>start\<close>: the chunk that is
  cut (before it is stripped) and the value of \<open>end\<close>. The code points 46, 33, 63 and 10 are
  \<open>.\<close>, \<open>!\<close>, \<open>?\<close> and the newline. The test \<open>last_sentence > chunk_size * 0.5\<close> compares
  an integer with a float; on integers it is \<open>2 * last_sentence > chunk_size\<close> (the
  product is exact for every chunk size that a float holds exactly).
\<close>

definition split_step :: "pystr \<Rightarrow> int \<Rightarrow> int \<Rightarrow> pystr \<times> int" where
  "split_step text chunk_size start =
     (let end = start + chunk_size;
          chunk = py_slice text start end
      in if end < py_len text then
           (let last_sentence =
                  max (max (max (rfind chunk 46) (rfind chunk 33)) (rfind chunk 63)) (rfind chunk 10)
            in if 2 * last_sentence > chunk_size
               then (py_slice chunk 0 (last_sentence + 1), start + last_sentence + 1)
               else (chunk, end))
         else (chunk, end))"

text \<open>
  The loop itself. Nothing in the source bounds the number of iterations, so the loop is a
  partial function: \<open>None\<close> is the run that never leaves the loop. The \<open>break\<close> at the end
  of the body is the first branch of the inner conditional.
\<close>

partial_function (option)
  split_loop :: "pystr \<Rightarrow> int \<Rightarrow> int \<Rightarrow> int \<Rightarrow> pystr list \<Rightarrow> pystr list option"
where
  "split_loop text chunk_size overlap start chunks =
     (if start < py_len text then
        (let chunks' = chunks @ [strip (fst (split_step text chunk_size start))];
             start' = snd (split_step text chunk_size start) - overlap
         in if start' \<ge> py_len text then Some chunks'
            else split_loop text chunk_size overlap start' chunks')
      else Some chunks)"

declare split_loop.simps [code]

definition split_text :: "pystr \<Rightarrow> int \<Rightarrow> int \<Rightarrow> pystr list option" where
  "split_text text chunk_size overlap = split_loop text chunk_size overlap 0 []"

section \<open>Structured documents: \<open>process_json_file\<close> of \<open>rag_index.py\<close>\<close>

text \<open>An ASCII literal of the source, as a Python string.\<close>

definition py :: "string \<Rightarrow> pystr" where
  "py s = map of_char s"

text \<open>
  A value decoded by \<open>json.load\<close>. Floats are only carried around, never computed with,
  and are written as reals.
\<close>

datatype json =
    JNull
  | JBool bool
  | JInt int
  | JFloat real
  | JStr pystr
  | JArr "json list"
  | JObj "(pystr \<times> json) list"

datatype py_error = TypeError

text \<open>
  Formatting a value inside an f-string (and \<open>str(v)\<close>): a string is itself; for any other
  value the result is that of the builtin \<open>str\<close>, which is a parameter \<open>str_of\<close> of the
  model.
\<close>

definition format_value :: "(json \<Rightarrow> pystr) \<Rightarrow> json \<Rightarrow> pystr" where
  "format_value str_of v = (case v of JStr s \<Rightarrow> s | _ \<Rightarrow> str_of v)"

text \<open>
  The statement \<open>if key in data: text_parts.append(f"<label>{data[key]}")\<close>, which the source
  repeats for nine of the ten fields.
\<close>

definition append_field ::
  "(json \<Rightarrow> pystr) \<Rightarrow> (pystr \<rightharpoonup> json) \<Rightarrow> pystr \<Rightarrow> pystr \<Rightarrow> pystr list \<Rightarrow> pystr list" where
  "append_field str_of data key label text_parts =
     (case data key of
        None \<Rightarrow> text_parts
      | Some v \<Rightarrow> text_parts @ [label @ format_value str_of v])"

text \<open>
  \<open>devices_str\<close>: a list is joined with \<open>", "\<close>, and \<open>str.join\<close> raises \<open>TypeError\<close> when an
  item of the list is not a string; any other value is passed to \<open>str\<close>.
\<close>

fun is_JStr :: "json \<Rightarrow> bool" where
  "is_JStr (JStr s) = True"
| "is_JStr v = False"

fun str_items :: "json list \<Rightarrow> pystr list" where
  "str_items [] = []"
| "str_items (JStr s # vs) = s # str_items vs"
| "str_items (v # vs) = str_items vs"

definition devices_str :: "(json \<Rightarrow> pystr) \<Rightarrow> json \<Rightarrow> py_error + pystr" where
  "devices_str str_of v =
     (case v of
        JArr items \<Rightarrow>
          if list_all is_JStr items then Inr (join (py '', '') (str_items items))
          else Inl TypeError
      | _ \<Rightarrow> Inr (format_value str_of v))"

text \<open>
  The labels are the literal parts of the f-strings of the source, as code points; they are
  Russian for: title (original), title (translation), author, translator, original text,
  translation, rhyme scheme, meter, artistic devices, comment. Four of them start with a
  newline (code point 10), and the labels of the two text blocks also end with one.
\<close>

definition label_title_original :: pystr where
  "label_title_original =
     [1053, 1072, 1079, 1074, 1072, 1085, 1080, 1077, 32, 40, 1086, 1088, 1080, 1075, 1080,
      1085, 1072, 1083, 41, 58, 32]"

definition label_title_translation :: pystr where
  "label_title_translation =
     [1053, 1072, 1079, 1074, 1072, 1085, 1080, 1077, 32, 40, 1087, 1077, 1088, 1077, 1074,
      1086, 1076, 41, 58, 32]"

definition label_author :: pystr where
  "label_author = [1040, 1074, 1090, 1086, 1088, 58, 32]"

definition label_translator :: pystr where
  "label_translator = [1055, 1077, 1088, 1077, 1074, 1086, 1076, 1095, 1080, 1082, 58, 32]"

definition label_original :: pystr where
  "label_original =
     [10, 1054, 1088, 1080, 1075, 1080, 1085, 1072, 1083, 1100, 1085, 1099, 1081, 32, 1090,
      1077, 1082, 1089, 1090, 58, 10]"

definition label_translation :: pystr where
  "label_translation = [10, 1055, 1077, 1088, 1077, 1074, 1086, 1076, 58, 10]"

definition label_rhyme_scheme :: pystr where
  "label_rhyme_scheme =
     [10, 1057, 1093, 1077, 1084, 1072, 32, 1088, 1080, 1092, 1084, 1086, 1074, 1082, 1080,
      58, 32]"

definition label_meter :: pystr where
  "label_meter = [1056, 1072, 1079, 1084, 1077, 1088, 58, 32]"

definition label_devices :: pystr where
  "label_devices =
     [1061, 1091, 1076, 1086, 1078, 1077, 1089, 1090, 1074, 1077, 1085, 1085, 1099, 1077, 32,
      1087, 1088, 1080, 1077, 1084, 1099, 58, 32]"

definition label_comment :: pystr where
  "label_comment = [10, 1050, 1086, 1084, 1084, 1077, 1085, 1090, 1072, 1088, 1080, 1081, 58, 32]"

text \<open>
  The text that \<open>process_json_file\<close> builds from the decoded document \<open>data\<close> (the value of
  \<open>full_text\<close>), or the \<open>TypeError\<close> that leaves the function. The document is a JSON
  object, the structured document of the data model.
\<close>

definition render_document :: "(json \<Rightarrow> pystr) \<Rightarrow> (pystr \<rightharpoonup> json) \<Rightarrow> py_error + pystr" where
  "render_document str_of data =
     (let text_parts = [];
          text_parts = append_field str_of data (py ''title_original'') label_title_original text_parts;
          text_parts = append_field str_of data (py ''title_translation'') label_title_translation text_parts;
          text_parts = append_field str_of data (py ''author'') label_author text_parts;
          text_parts = append_field str_of data (py ''translator'') label_translator text_parts;
          text_parts = append_field str_of data (py ''original'') label_original text_parts;
          text_parts = append_field str_of data (py ''translation'') label_translation text_parts;
          text_parts = append_field str_of data (py ''rhyme_scheme'') label_rhyme_scheme text_parts;
          text_parts = append_field str_of data (py ''meter'') label_meter text_parts
      in case (case data (py ''devices'') of
                 None \<Rightarrow> Inr text_parts
               | Some v \<Rightarrow>
                   (case devices_str str_of v of
                      Inl e \<Rightarrow> Inl e
                    | Inr s \<Rightarrow> Inr (text_parts @ [label_devices @ s]))) of
           Inl e \<Rightarrow> Inl e
         | Inr text_parts \<Rightarrow>
             Inr (join [10] (append_field str_of data (py ''comment'') label_comment text_parts)))"

section \<open>The world outside the program\<close>

text \<open>
  What the embedding service answers to one request: \<open>RequestException\<close> stands for every
  exception that \<open>requests.post\<close>, \<open>raise_for_status\<close> and \<open>response.json\<close> raise, and
  \<open>Response r\<close> is a decoded answer whose \<open>embedding\<close> entry is \<open>r\<close> (\<open>None\<close> when the
  key is missing).
\<close>

datatype http_result = RequestException | Response "real list option"

text \<open>
  The collaborators of the indexer. The state \<open>'w\<close> of the outside world is threaded
  through the calls of the embedding service, so that two requests with the same text can
  be answered differently.
  \<^item> \<open>suffix_lower p\<close> is \<open>Path(p).suffix.lower()\<close>;
  \<^item> \<open>read_file p\<close> is the text read from \<open>p\<close>, \<open>None\<close> when opening or decoding raises;
  \<^item> \<open>load_json p\<close> is the object decoded from \<open>p\<close>, \<open>None\<close> when opening or parsing raises;
  \<^item> \<open>builtin_str\<close> is the builtin \<open>str\<close> on decoded values;
  \<^item> \<open>post_embedding w text\<close> is the request to the embeddings endpoint.
\<close>

record 'w env =
  suffix_lower :: "pystr \<Rightarrow> pystr"
  read_file :: "pystr \<Rightarrow> pystr option"
  load_json :: "pystr \<Rightarrow> (pystr \<rightharpoonup> json) option"
  builtin_str :: "json \<Rightarrow> pystr"
  post_embedding :: "'w \<Rightarrow> pystr \<Rightarrow> http_result \<times> 'w"

section \<open>The indexer: \<open>get_embedding\<close>, \<open>process_json_file\<close> and \<open>index_file\<close>\<close>

datatype meta_val = MStr pystr | MInt int

text \<open>
  A chunk record is the dictionary with the keys \<open>text\<close>, \<open>embedding\<close> and \<open>metadata\<close>
  that \<open>index_file\<close> builds.
\<close>

record chunk_record =
  c_text :: pystr
  c_embedding :: "real list"
  c_metadata :: "pystr \<rightharpoonup> meta_val"

definition get_embedding ::
  "('w \<Rightarrow> pystr \<Rightarrow> http_result \<times> 'w) \<Rightarrow> 'w \<Rightarrow> pystr \<Rightarrow> real list \<times> 'w" where
  "get_embedding post w txt =
     (case post w txt of
        (RequestException, w') \<Rightarrow> ([], w')
      | (Response r, w') \<Rightarrow> ((case r of None \<Rightarrow> [] | Some e \<Rightarrow> e), w'))"

text \<open>
  The results of the functions below are \<open>None\<close> when the chunker does not return,
  \<open>Some (Inl e)\<close> when the exception \<open>e\<close> leaves the function, and \<open>Some (Inr r)\<close> when
  \<open>r\<close> is returned.
\<close>

definition process_json_file :: "'w env \<Rightarrow> pystr \<Rightarrow> (py_error + pystr list) option" where
  "process_json_file env file_path =
     (case load_json env file_path of
        None \<Rightarrow> Some (Inr [])
      | Some data \<Rightarrow>
          (case render_document (builtin_str env) data of
             Inl e \<Rightarrow> Some (Inl e)
           | Inr full_text \<Rightarrow> map_option Inr (split_text full_text CHUNK_SIZE CHUNK_OVERLAP)))"

text \<open>The caller's metadata as a dictionary: \<open>metadata or {}\<close>.\<close>

definition extra_metadata :: "(pystr \<rightharpoonup> meta_val) option \<Rightarrow> (pystr \<rightharpoonup> meta_val)" where
  "extra_metadata metadata = (case metadata of None \<Rightarrow> Map.empty | Some m \<Rightarrow> m)"

text \<open>
  The dictionary \<open>{"file": file_path, "chunk_index": i, **(metadata or {})}\<close>: the entries of
  the caller come last and replace the two defaults.
\<close>

definition chunk_metadata ::
  "pystr \<Rightarrow> nat \<Rightarrow> (pystr \<rightharpoonup> meta_val) option \<Rightarrow> (pystr \<rightharpoonup> meta_val)" where
  "chunk_metadata file_path i metadata =
     [py ''file'' \<mapsto> MStr file_path, py ''chunk_index'' \<mapsto> MInt (int i)] ++
     extra_metadata metadata"

text \<open>
  The loop \<open>for i, chunk in enumerate(chunks)\<close>, from position \<open>i\<close> with the records
  collected so far.
\<close>

fun index_chunks ::
  "('w \<Rightarrow> pystr \<Rightarrow> http_result \<times> 'w) \<Rightarrow> pystr \<Rightarrow> (pystr \<rightharpoonup> meta_val) option \<Rightarrow> nat \<Rightarrow>
     pystr list \<Rightarrow> 'w \<Rightarrow> chunk_record list \<Rightarrow> chunk_record list \<times> 'w" where
  "index_chunks post file_path metadata i [] w indexed_chunks = (indexed_chunks, w)"
| "index_chunks post file_path metadata i (chunk # rest) w indexed_chunks =
     (if strip chunk = [] then index_chunks post file_path metadata (Suc i) rest w indexed_chunks
      else
        (case get_embedding post w chunk of
           (embedding, w') \<Rightarrow>
             if embedding = [] then index_chunks post file_path metadata (Suc i) rest w' indexed_chunks
             else index_chunks post file_path metadata (Suc i) rest w'
                    (indexed_chunks @
                       [\<lparr>c_text = chunk, c_embedding = embedding,
                         c_metadata = chunk_metadata file_path i metadata\<rparr>])))"

definition index_file ::
  "'w env \<Rightarrow> pystr \<Rightarrow> (pystr \<rightharpoonup> meta_val) option \<Rightarrow> 'w \<Rightarrow>
     (py_error + chunk_record list \<times> 'w) option" where
  "index_file env file_path metadata w =
     (if suffix_lower env file_path = py ''.json'' then
        (case process_json_file env file_path of
           None \<Rightarrow> None
         | Some (Inl e) \<Rightarrow> Some (Inl e)
         | Some (Inr chunks) \<Rightarrow>
             Some (Inr (index_chunks (post_embedding env) file_path metadata 0 chunks w [])))
      else
        (case read_file env file_path of
           None \<Rightarrow> Some (Inr ([], w))
         | Some txt \<Rightarrow>
             (case split_text txt CHUNK_SIZE CHUNK_OVERLAP of
                None \<Rightarrow> None
              | Some chunks \<Rightarrow>
                  Some (Inr (index_chunks (post_embedding env) file_path metadata 0 chunks w [])))))"

text \<open>
  The chunk sequence of a file, as \<open>index_file\<close> obtains it before the loop; a text file
  that cannot be read has none.
\<close>

definition read_chunks :: "'w env \<Rightarrow> pystr \<Rightarrow> (py_error + pystr list) option" where
  "read_chunks env file_path =
     (if suffix_lower env file_path = py ''.json'' then process_json_file env file_path
      else
        (case read_file env file_path of
           None \<Rightarrow> Some (Inr [])
         | Some txt \<Rightarrow> map_option Inr (split_text txt CHUNK_SIZE CHUNK_OVERLAP)))"

text \<open>
  What the embedding client returned for each chunk during the loop: \<open>None\<close> for a chunk
  that was not sent (it is blank), \<open>Some e\<close> for the vector \<open>e\<close>.
\<close>

fun embed_calls ::
  "('w \<Rightarrow> pystr \<Rightarrow> http_result \<times> 'w) \<Rightarrow> pystr list \<Rightarrow> 'w \<Rightarrow> real list option list" where
  "embed_calls post [] w = []"
| "embed_calls post (chunk # rest) w =
     (if strip chunk = [] then None # embed_calls post rest w
      else Some (fst (get_embedding post w chunk)) #
           embed_calls post rest (snd (get_embedding post w chunk)))"

text \<open>
  A chunk is kept when it was sent and the vector that came back is not empty;
  \<open>kept_positions\<close> are the positions of the kept chunks, in increasing order, and
  \<open>record_at\<close> is the record that the loop appends for the chunk at position \<open>j\<close> when the
  enumeration started at \<open>i\<close>.
\<close>

fun kept :: "real list option \<Rightarrow> bool" where
  "kept None = False"
| "kept (Some e) = (e \<noteq> [])"

definition kept_positions :: "real list option list \<Rightarrow> nat list" where
  "kept_positions calls = filter (\<lambda>j. kept (calls ! j)) [0..<length calls]"

definition record_at ::
  "pystr \<Rightarrow> (pystr \<rightharpoonup> meta_val) option \<Rightarrow> pystr list \<Rightarrow> real list option list \<Rightarrow>
     nat \<Rightarrow> nat \<Rightarrow> chunk_record" where
  "record_at file_path metadata chunks calls i j =
     \<lparr>c_text = chunks ! j, c_embedding = the (calls ! j),
      c_metadata = chunk_metadata file_path (i + j) metadata\<rparr>"

text \<open>The \<open>chunk_index\<close> entry of a record's metadata, when it is an integer.\<close>

definition chunk_index_of :: "chunk_record \<Rightarrow> int option" where
  "chunk_index_of r =
     (case c_metadata r (py ''chunk_index'') of Some (MInt n) \<Rightarrow> Some n | _ \<Rightarrow> None)"

subsection \<open>A small world for running the indexer\<close>

text \<open>
  Every path holds the same text file of a thousand letters \<open>a\<close>, which the chunker cuts
  into three chunks. The state of the world counts the requests made to the embedding
  service; the service fails on the second request and answers every other one with the
  vector \<open>[1]\<close>.
\<close>

definition demo_post :: "nat \<Rightarrow> pystr \<Rightarrow> http_result \<times> nat" where
  "demo_post w txt = (if w = 1 then RequestException else Response (Some [1]), Suc w)"

definition demo_builtin_str :: "json \<Rightarrow> pystr" where
  "demo_builtin_str v = []"

definition demo_env :: "nat env" where
  "demo_env =
     \<lparr>suffix_lower = (\<lambda>p. py ''.txt''),
      read_file = (\<lambda>p. Some (replicate 1000 97)),
      load_json = (\<lambda>p. None),
      builtin_str = demo_builtin_str,
      post_embedding = demo_post\<rparr>"

definition demo_override :: "pystr \<rightharpoonup> meta_val" where
  "demo_override = [py ''file'' \<mapsto> MStr (py ''b.txt''), py ''chunk_index'' \<mapsto> MInt 7]"

text \<open>
  The chunks of that file, and the two records that a run from the state 0 returns for
  the file \<open>p\<close>: the second chunk is the one whose request fails.
\<close>

definition demo_chunks :: "pystr list" where
  "demo_chunks = [replicate 500 97, replicate 500 97, replicate 100 97]"

definition demo_records :: "pystr \<Rightarrow> (pystr \<rightharpoonup> meta_val) option \<Rightarrow> chunk_record list" where
  "demo_records p metadata =
     [\<lparr>c_text = replicate 500 97, c_embedding = [1], c_metadata = chunk_metadata p 0 metadata\<rparr>,
      \<lparr>c_text = replicate 100 97, c_embedding = [1], c_metadata = chunk_metadata p 2 metadata\<rparr>]"

section \<open>The normalisation as the specification words it\<close>

text \<open>
  The specification describes the normalised text as a table of fields walked in a fixed
  order: every field that is present gives one part, its label followed by its value, an
  absent field gives nothing, and the parts are joined with newlines.
  \<open>document_fields\<close> is that table, with the keys and labels of the source
  in the order of the source; \<open>field_text\<close> is the value of a field as text, where only
  the devices are treated specially (a list of strings is joined with a comma and a
  space).
\<close>

definition document_fields :: "(pystr \<times> pystr) list" where
  "document_fields =
     [(py ''title_original'', label_title_original),
      (py ''title_translation'', label_title_translation),
      (py ''author'', label_author),
      (py ''translator'', label_translator),
      (py ''original'', label_original),
      (py ''translation'', label_translation),
      (py ''rhyme_scheme'', label_rhyme_scheme),
      (py ''meter'', label_meter),
      (py ''devices'', label_devices),
      (py ''comment'', label_comment)]"

definition field_text :: "(json \<Rightarrow> pystr) \<Rightarrow> pystr \<Rightarrow> json \<Rightarrow> pystr" where
  "field_text str_of key v =
     (case v of
        JArr items \<Rightarrow>
          if key = py ''devices'' then join (py '', '') (str_items items) else str_of v
      | JStr s \<Rightarrow> s
      | _ \<Rightarrow> str_of v)"

fun field_part :: "(json \<Rightarrow> pystr) \<Rightarrow> (pystr \<rightharpoonup> json) \<Rightarrow> pystr \<times> pystr \<Rightarrow> pystr list" where
  "field_part str_of data (key, label) =
     (case data key of None \<Rightarrow> [] | Some v \<Rightarrow> [label @ field_text str_of key v])"

definition normalize_spec :: "(json \<Rightarrow> pystr) \<Rightarrow> (pystr \<rightharpoonup> json) \<Rightarrow> pystr" where
  "normalize_spec str_of data = join [10] (concat (map (field_part str_of data) document_fields))"

text \<open>The devices of a document can be joined: they are not a list, or a list of strings.\<close>

definition devices_joinable :: "(pystr \<rightharpoonup> json) \<Rightarrow> bool" where
  "devices_joinable data =
     (case data (py ''devices'') of Some (JArr items) \<Rightarrow> list_all is_JStr items | _ \<Rightarrow> True)"

text \<open>
  The document of the scenario: the author \<open>X\<close>, the original \<open>line1\<close> and a translation
  of seven Cyrillic characters.
\<close>

definition demo_translation :: pystr where
  "demo_translation = [1089, 1090, 1088, 1086, 1082, 1072, 49]"

definition demo_document :: "pystr \<rightharpoonup> json" where
  "demo_document =
     [py ''author'' \<mapsto> JStr (py ''X''), py ''original'' \<mapsto> JStr (py ''line1''),
      py ''translation'' \<mapsto> JStr demo_translation]"

text \<open>A document whose devices are a list with the number 1 in it.\<close>

definition demo_bad_document :: "pystr \<rightharpoonup> json" where
  "demo_bad_document = [py ''devices'' \<mapsto> JArr [JInt 1]]"

text \<open>A document whose devices are the number 1 itself, not a list.\<close>

definition demo_scalar_document :: "pystr \<rightharpoonup> json" where
  "demo_scalar_document = [py ''devices'' \<mapsto> JInt 1]"

section \<open>The retriever and the prompt composer: \<open>simple_translator.py\<close>\<close>

text \<open>
  \<open>str.lower\<close> is a parameter \<open>lower\<close> of the model: the functions below only apply it.
  An element of the index is a chunk record, which has a text, so \<open>chunk.get("text", "")\<close>
  is that text.
\<close>

text \<open>The loop of \<open>find_poems_by_translator\<close>, with the list \<open>found\<close> collected so far.\<close>

fun find_loop ::
  "(pystr \<Rightarrow> pystr) \<Rightarrow> pystr \<Rightarrow> chunk_record list \<Rightarrow> chunk_record list \<Rightarrow> chunk_record list" where
  "find_loop lower translator_lower [] found = found"
| "find_loop lower translator_lower (chunk # index) found =
     (let chunk_text = lower (c_text chunk)
      in if contains chunk_text translator_lower
         then find_loop lower translator_lower index (found @ [chunk])
         else find_loop lower translator_lower index found)"

definition find_poems_by_translator ::
  "(pystr \<Rightarrow> pystr) \<Rightarrow> pystr \<Rightarrow> chunk_record list \<Rightarrow> chunk_record list" where
  "find_poems_by_translator lower translator_name index =
     (let translator_lower = lower translator_name
      in find_loop lower translator_lower index [])"

text \<open>
  The two markers that an exemplar must contain, the Russian for \<open>Original text:\<close> and
  \<open>Translation:\<close>, and the separator \<open>\n\n---\n\n\<close> between exemplars.
\<close>

definition marker_original :: pystr where
  "marker_original =
     [1054, 1088, 1080, 1075, 1080, 1085, 1072, 1083, 1100, 1085, 1099, 1081, 32, 1090, 1077,
      1082, 1089, 1090, 58]"

definition marker_translation :: pystr where
  "marker_translation = [1055, 1077, 1088, 1077, 1074, 1086, 1076, 58]"

definition examples_separator :: pystr where
  "examples_separator = [10, 10, 45, 45, 45, 10, 10]"

text \<open>The loop of \<open>translate\<close> that collects the exemplar texts.\<close>

fun examples_loop :: "chunk_record list \<Rightarrow> pystr list \<Rightarrow> pystr list" where
  "examples_loop [] examples = examples"
| "examples_loop (chunk # translator_poems) examples =
     (let chunk_text = c_text chunk
      in if contains chunk_text marker_original \<and> contains chunk_text marker_translation
         then examples_loop translator_poems (examples @ [chunk_text])
         else examples_loop translator_poems examples)"

text \<open>
  The literal parts of the two f-strings of \<open>translate\<close>, as code points. The first
  template has four parts, around \<open>translator_style\<close>, \<open>examples_text\<close> and \<open>poem_text\<close>;
  the second has two, around \<open>poem_text\<close>. Both start with six lines of instructions: the
  role of the translator, and five lines (each starting with a warning sign, the code
  points 9888 and 65039) that demand a translation rhymed over its whole length, pairs of
  lines that rhyme strictly (AABB or ABAB), the rhymes planned before the lines are
  composed, and no text outside the rhyme.
\<close>

definition styled_part_1 :: pystr where
  "styled_part_1 =
     [1058, 1099, 32, 1087, 1088, 1086, 1092, 1077, 1089, 1089, 1080, 1086, 1085, 1072, 1083,
      1100, 1085, 1099, 1081, 32, 1087, 1077, 1088, 1077, 1074, 1086, 1076, 1095, 1080, 1082,
      32, 1076, 1077, 1090, 1089, 1082, 1080, 1093, 32, 1089, 1090, 1080, 1093, 1086, 1090,
      1074, 1086, 1088, 1077, 1085, 1080, 1081, 32, 1089, 32, 1072, 1085, 1075, 1083, 1080,
      1081, 1089, 1082, 1086, 1075, 1086, 32, 1085, 1072, 32, 1088, 1091, 1089, 1089, 1082,
      1080, 1081, 46, 10, 9888, 65039, 32, 1047, 1072, 1076, 1072, 1095, 1072, 58, 32, 1087,
      1077, 1088, 1077, 1074, 1077, 1089, 1090, 1080, 32, 1101, 1090, 1086, 32, 1089, 1090,
      1080, 1093, 1086, 1090, 1074, 1086, 1088, 1077, 1085, 1080, 1077, 32, 42, 42, 1087,
      1086, 1083, 1085, 1086, 1089, 1090, 1100, 1102, 32, 1088, 1080, 1092, 1084, 1086, 1074,
      1072, 1085, 1085, 1086, 42, 42, 32, 1087, 1086, 32, 1074, 1089, 1077, 1081, 32, 1076,
      1083, 1080, 1085, 1077, 46, 10, 9888, 65039, 32, 1050, 1072, 1078, 1076, 1072, 1103, 32,
      1087, 1072, 1088, 1072, 32, 1089, 1090, 1088, 1086, 1082, 32, 1076, 1086, 1083, 1078,
      1085, 1072, 32, 1089, 1090, 1088, 1086, 1075, 1086, 32, 1088, 1080, 1092, 1084, 1086,
      1074, 1072, 1090, 1100, 1089, 1103, 32, 40, 65, 65, 66, 66, 32, 1080, 1083, 1080, 32,
      65, 66, 65, 66, 41, 46, 32, 10, 9888, 65039, 32, 1057, 1084, 1099, 1089, 1083, 32, 1084,
      1086, 1078, 1085, 1086, 32, 1089, 1083, 1077, 1075, 1082, 1072, 32, 1072, 1076, 1072,
      1087, 1090, 1080, 1088, 1086, 1074, 1072, 1090, 1100, 32, 1088, 1072, 1076, 1080, 32,
      1088, 1080, 1092, 1084, 1099, 44, 32, 1085, 1086, 32, 1089, 1084, 1099, 1089, 1083, 32,
      1082, 1072, 1078, 1076, 1086, 1081, 32, 1089, 1090, 1088, 1086, 1082, 1080, 32, 1076,
      1086, 1083, 1078, 1077, 1085, 32, 1073, 1099, 1090, 1100, 32, 1087, 1086, 1085, 1103,
      1090, 1077, 1085, 46, 10, 9888, 65039, 32, 1057, 1085, 1072, 1095, 1072, 1083, 1072, 32,
      42, 42, 1086, 1087, 1088, 1077, 1076, 1077, 1083, 1080, 32, 1074, 1089, 1077, 32, 1088,
      1080, 1092, 1084, 1099, 32, 1076, 1083, 1103, 32, 1074, 1089, 1077, 1075, 1086, 32,
      1089, 1090, 1080, 1093, 1086, 1090, 1074, 1086, 1088, 1077, 1085, 1080, 1103, 42, 42,
      44, 32, 1072, 32, 1087, 1086, 1090, 1086, 1084, 32, 1089, 1086, 1089, 1090, 1072, 1074,
      1100, 32, 1089, 1090, 1088, 1086, 1082, 1080, 46, 10, 9888, 65039, 32, 1042, 1077, 1089,
      1100, 32, 1090, 1077, 1082, 1089, 1090, 32, 1076, 1086, 1083, 1078, 1077, 1085, 32,
      1073, 1099, 1090, 1100, 32, 1088, 1080, 1092, 1084, 1086, 1074, 1072, 1085, 1085, 1099,
      1084, 44, 32, 1073, 1077, 1079, 32, 1080, 1089, 1082, 1083, 1102, 1095, 1077, 1085,
      1080, 1081, 44, 32, 1073, 1077, 1079, 32, 1083, 1080, 1096, 1085, 1080, 1093, 32, 1089,
      1083, 1086, 1074, 46, 10, 10, 1055, 1088, 1080, 1084, 1077, 1088, 1099, 32, 1087, 1077,
      1088, 1077, 1074, 1086, 1076, 1086, 1074, 32]"

definition styled_part_2 :: pystr where
  "styled_part_2 =
     [32, 1089, 1083, 1091, 1078, 1072, 1090, 32, 1082, 1072, 1082, 32, 1074, 1076, 1086,
      1093, 1085, 1086, 1074, 1077, 1085, 1080, 1077, 44, 32, 1085, 1077, 32, 1082, 1086,
      1087, 1080, 1088, 1091, 1081, 32, 1080, 1093, 32, 1076, 1086, 1089, 1083, 1086, 1074,
      1085, 1086, 58, 10, 10]"

definition styled_part_3 :: pystr where
  "styled_part_3 =
     [10, 10, 45, 45, 45, 10, 10, 1055, 1077, 1088, 1077, 1074, 1077, 1076, 1080, 32, 1101,
      1090, 1086, 32, 1089, 1090, 1080, 1093, 1086, 1090, 1074, 1086, 1088, 1077, 1085, 1080,
      1077, 32, 1089, 1090, 1088, 1086, 1075, 1086, 32, 1088, 1080, 1092, 1084, 1086, 1074,
      1072, 1085, 1085, 1086, 44, 32, 1089, 1086, 1073, 1083, 1102, 1076, 1072, 1103, 32,
      1089, 1093, 1077, 1084, 1091, 32, 1088, 1080, 1092, 1084, 1099, 44, 32, 1088, 1080,
      1090, 1084, 32, 1080, 32, 1084, 1091, 1079, 1099, 1082, 1072, 1083, 1100, 1085, 1086,
      1089, 1090, 1100, 46, 32, 1057, 1085, 1072, 1095, 1072, 1083, 1072, 32, 1087, 1088,
      1080, 1076, 1091, 1084, 1072, 1081, 32, 1088, 1080, 1092, 1084, 1099, 32, 1076, 1083,
      1103, 32, 1074, 1089, 1077, 1075, 1086, 32, 1089, 1090, 1080, 1093, 1086, 1090, 1074,
      1086, 1088, 1077, 1085, 1080, 1103, 44, 32, 1087, 1086, 1090, 1086, 1084, 32, 1089,
      1086, 1089, 1090, 1072, 1074, 1100, 32, 1089, 1090, 1088, 1086, 1082, 1080, 58, 10, 10]"

definition styled_part_4 :: pystr where
  "styled_part_4 =
     [10, 10, 1058, 1074, 1086, 1081, 32, 1087, 1077, 1088, 1077, 1074, 1086, 1076, 32, 40,
      1090, 1086, 1083, 1100, 1082, 1086, 32, 1090, 1077, 1082, 1089, 1090, 44, 32, 1087,
      1086, 1083, 1085, 1086, 1089, 1090, 1100, 1102, 32, 1088, 1080, 1092, 1084, 1086, 1074,
      1072, 1085, 1085, 1086, 44, 32, 1073, 1077, 1079, 32, 1082, 1086, 1084, 1084, 1077,
      1085, 1090, 1072, 1088, 1080, 1077, 1074, 41, 58]"

definition plain_part_1 :: pystr where
  "plain_part_1 =
     [1058, 1099, 32, 1087, 1088, 1086, 1092, 1077, 1089, 1089, 1080, 1086, 1085, 1072, 1083,
      1100, 1085, 1099, 1081, 32, 1087, 1077, 1088, 1077, 1074, 1086, 1076, 1095, 1080, 1082,
      32, 1076, 1077, 1090, 1089, 1082, 1080, 1093, 32, 1089, 1090, 1080, 1093, 1086, 1090,
      1074, 1086, 1088, 1077, 1085, 1080, 1081, 32, 1089, 32, 1072, 1085, 1075, 1083, 1080,
      1081, 1089, 1082, 1086, 1075, 1086, 32, 1085, 1072, 32, 1088, 1091, 1089, 1089, 1082,
      1080, 1081, 46, 10, 9888, 65039, 32, 1047, 1072, 1076, 1072, 1095, 1072, 58, 32, 1087,
      1077, 1088, 1077, 1074, 1077, 1089, 1090, 1080, 32, 1101, 1090, 1086, 32, 1089, 1090,
      1080, 1093, 1086, 1090, 1074, 1086, 1088, 1077, 1085, 1080, 1077, 32, 42, 42, 1087,
      1086, 1083, 1085, 1086, 1089, 1090, 1100, 1102, 32, 1088, 1080, 1092, 1084, 1086, 1074,
      1072, 1085, 1085, 1086, 42, 42, 32, 1087, 1086, 32, 1074, 1089, 1077, 1081, 32, 1076,
      1083, 1080, 1085, 1077, 46, 10, 9888, 65039, 32, 1050, 1072, 1078, 1076, 1072, 1103, 32,
      1087, 1072, 1088, 1072, 32, 1089, 1090, 1088, 1086, 1082, 32, 1076, 1086, 1083, 1078,
      1085, 1072, 32, 1089, 1090, 1088, 1086, 1075, 1086, 32, 1088, 1080, 1092, 1084, 1086,
      1074, 1072, 1090, 1100, 1089, 1103, 32, 40, 65, 65, 66, 66, 32, 1080, 1083, 1080, 32,
      65, 66, 65, 66, 41, 46, 32, 10, 9888, 65039, 32, 1057, 1084, 1099, 1089, 1083, 32, 1084,
      1086, 1078, 1085, 1086, 32, 1089, 1083, 1077, 1075, 1082, 1072, 32, 1072, 1076, 1072,
      1087, 1090, 1080, 1088, 1086, 1074, 1072, 1090, 1100, 32, 1088, 1072, 1076, 1080, 32,
      1088, 1080, 1092, 1084, 1099, 44, 32, 1085, 1086, 32, 1089, 1084, 1099, 1089, 1083, 32,
      1082, 1072, 1078, 1076, 1086, 1081, 32, 1089, 1090, 1088, 1086, 1082, 1080, 32, 1076,
      1086, 1083, 1078, 1077, 1085, 32, 1073, 1099, 1090, 1100, 32, 1087, 1086, 1085, 1103,
      1090, 1077, 1085, 46, 10, 9888, 65039, 32, 1057, 1085, 1072, 1095, 1072, 1083, 1072, 32,
      42, 42, 1086, 1087, 1088, 1077, 1076, 1077, 1083, 1080, 32, 1074, 1089, 1077, 32, 1088,
      1080, 1092, 1084, 1099, 32, 1076, 1083, 1103, 32, 1074, 1089, 1077, 1075, 1086, 32,
      1089, 1090, 1080, 1093, 1086, 1090, 1074, 1086, 1088, 1077, 1085, 1080, 1103, 42, 42,
      44, 32, 1072, 32, 1087, 1086, 1090, 1086, 1084, 32, 1089, 1086, 1089, 1090, 1072, 1074,
      1100, 32, 1089, 1090, 1088, 1086, 1082, 1080, 46, 10, 9888, 65039, 32, 1042, 1077, 1089,
      1100, 32, 1090, 1077, 1082, 1089, 1090, 32, 1076, 1086, 1083, 1078, 1077, 1085, 32,
      1073, 1099, 1090, 1100, 32, 1088, 1080, 1092, 1084, 1086, 1074, 1072, 1085, 1085, 1099,
      1084, 44, 32, 1073, 1077, 1079, 32, 1080, 1089, 1082, 1083, 1102, 1095, 1077, 1085,
      1080, 1081, 44, 32, 1073, 1077, 1079, 32, 1083, 1080, 1096, 1085, 1080, 1093, 32, 1089,
      1083, 1086, 1074, 46, 10, 10]"

definition plain_part_2 :: pystr where
  "plain_part_2 =
     [10, 10, 1058, 1074, 1086, 1081, 32, 1087, 1077, 1088, 1077, 1074, 1086, 1076, 32, 40,
      1090, 1086, 1083, 1100, 1082, 1086, 32, 1090, 1077, 1082, 1089, 1090, 44, 32, 1087,
      1086, 1083, 1085, 1086, 1089, 1090, 1100, 1102, 32, 1088, 1080, 1092, 1084, 1086, 1074,
      1072, 1085, 1085, 1086, 44, 32, 1073, 1077, 1079, 32, 1082, 1086, 1084, 1084, 1077,
      1085, 1090, 1072, 1088, 1080, 1077, 1074, 41, 58]"

text \<open>
  The prompt that \<open>translate\<close> builds from the chunks \<open>translator_poems\<close> it retrieved,
  and the prompt as a function of the index.
\<close>

definition build_prompt :: "pystr \<Rightarrow> pystr \<Rightarrow> chunk_record list \<Rightarrow> pystr" where
  "build_prompt poem_text translator_style translator_poems =
     (let examples = examples_loop translator_poems []
      in if examples \<noteq> [] then
           (let examples_text = join examples_separator examples
            in styled_part_1 @ translator_style @ styled_part_2 @ examples_text @
               styled_part_3 @ poem_text @ styled_part_4)
         else plain_part_1 @ poem_text @ plain_part_2)"

definition translate_prompt ::
  "(pystr \<Rightarrow> pystr) \<Rightarrow> pystr \<Rightarrow> pystr \<Rightarrow> chunk_record list \<Rightarrow> pystr" where
  "translate_prompt lower poem_text translator_style index =
     (let translator_poems = find_poems_by_translator lower translator_style index
      in build_prompt poem_text translator_style translator_poems)"

text \<open>
  \<open>translate\<close> sends the prompt to the generation service and returns the \<open>response\<close>
  entry of the answer (the empty string when the key is missing), or \<open>None\<close> when any
  exception is raised. The service is a parameter that maps the state of the world and the
  prompt to an outcome and a new state.
\<close>

datatype generate_result = GenerateException | GenerateResponse "pystr option"

definition translate ::
  "('w \<Rightarrow> pystr \<Rightarrow> generate_result \<times> 'w) \<Rightarrow> (pystr \<Rightarrow> pystr) \<Rightarrow> pystr \<Rightarrow> pystr \<Rightarrow>
     chunk_record list \<Rightarrow> 'w \<Rightarrow> pystr option \<times> 'w" where
  "translate post lower poem_text translator_style index w =
     (let prompt = translate_prompt lower poem_text translator_style index
      in case post w prompt of
           (GenerateException, w') \<Rightarrow> (None, w')
         | (GenerateResponse r, w') \<Rightarrow> (Some (case r of None \<Rightarrow> [] | Some s \<Rightarrow> s), w'))"

text \<open>The chunks that qualify as exemplars: their text contains both markers.\<close>

definition is_exemplar :: "chunk_record \<Rightarrow> bool" where
  "is_exemplar chunk \<longleftrightarrow>
     contains (c_text chunk) marker_original \<and> contains (c_text chunk) marker_translation"




subsection \<open>A small index\<close>

text \<open>
  \<open>ascii_lower\<close> lowers the letters \<open>A\<close> to \<open>Z\<close> and leaves every other code point, as
  \<open>str.lower\<close> does on ASCII text. The index has three chunks; the first and the third
  name Smith, and the first contains both markers.
\<close>

definition ascii_lower :: "pystr \<Rightarrow> pystr" where
  "ascii_lower s = map (\<lambda>c. if 65 \<le> c \<and> c \<le> 90 then c + 32 else c) s"

definition demo_index :: "chunk_record list" where
  "demo_index =
     [\<lparr>c_text = py ''Smith '' @ marker_original @ py '' a '' @ marker_translation @ py '' b'',
       c_embedding = [1], c_metadata = Map.empty\<rparr>,
      \<lparr>c_text = py ''Jones'', c_embedding = [1], c_metadata = Map.empty\<rparr>,
      \<lparr>c_text = py ''by SMITH'', c_embedding = [1], c_metadata = Map.empty\<rparr>]"

section \<open>The index store: \<open>save_index\<close> and \<open>load_index\<close>\<close>

text \<open>
  Each of the two programs has its own constant \<open>INDEX_DIR\<close>: \<open>INDEX_DIR\<close> is the one of
  \<open>rag_index.py\<close>, which saves, and \<open>INDEX_DIR_translator\<close> the one of
  \<open>simple_translator.py\<close>, which loads.
\<close>

definition INDEX_DIR :: pystr where
  "INDEX_DIR = py ''rag_index''"

definition INDEX_DIR_translator :: pystr where
  "INDEX_DIR_translator = py ''rag_index''"

text \<open>
  \<open>os.path.join(a, b)\<close> on a POSIX system: an absolute \<open>b\<close> replaces \<open>a\<close>; otherwise the
  two are put together with one slash (code point 47), which is left out when \<open>a\<close> is empty
  or already ends with one.
\<close>

definition path_join :: "pystr \<Rightarrow> pystr \<Rightarrow> pystr" where
  "path_join a b =
     (if b \<noteq> [] \<and> hd b = 47 then b
      else if a = [] \<or> last a = 47 then a @ b
      else a @ [47] @ b)"

text \<open>
  The files are a map from paths to contents of a type \<open>'b\<close>. The serialisation is a
  parameter: \<open>dumps\<close> is what \<open>pickle.dump\<close> writes and \<open>loads\<close> what \<open>pickle.load\<close> reads
  back, \<open>None\<close> when it raises. \<open>writable p\<close> says that the directory can be made and the
  file \<open>p\<close> opened for writing; otherwise \<open>save_index\<close> ends with an \<open>OSError\<close>.
\<close>

datatype os_error = OSError

definition save_index ::
  "(chunk_record list \<Rightarrow> 'b) \<Rightarrow> (pystr \<Rightarrow> bool) \<Rightarrow> (pystr \<rightharpoonup> 'b) \<Rightarrow> chunk_record list \<Rightarrow> pystr \<Rightarrow>
     os_error + (pystr \<rightharpoonup> 'b)" where
  "save_index dumps writable files chunks index_name =
     (let index_file = path_join INDEX_DIR (index_name @ py ''.pkl'')
      in if writable index_file then Inr (files(index_file \<mapsto> dumps chunks))
         else Inl OSError)"

definition load_index ::
  "('b \<Rightarrow> chunk_record list option) \<Rightarrow> (pystr \<rightharpoonup> 'b) \<Rightarrow> pystr \<Rightarrow> chunk_record list option" where
  "load_index loads files index_name =
     (let index_file = path_join INDEX_DIR_translator (index_name @ py ''.pkl'')
      in case files index_file of
           None \<Rightarrow> Some []
         | Some content \<Rightarrow> loads content)"

text \<open>A store that holds the small index under the name \<open>default\<close>, unserialised.\<close>

definition demo_files :: "pystr \<rightharpoonup> chunk_record list" where
  "demo_files = [py ''rag_index/default.pkl'' \<mapsto> demo_index]"

section \<open>Facts about the chunker\<close>

lemma split_step_progress:
  assumes "overlap < chunk_size" and "2 * overlap \<le> chunk_size + 2"
  shows "start < snd (split_step text chunk_size start) - overlap"
  using assms by (auto simp: split_step_def Let_def)

lemma split_loop_returns:
  assumes "overlap < chunk_size" and "2 * overlap \<le> chunk_size + 2"
  shows "\<exists>res. split_loop text chunk_size overlap start chunks = Some res"
proof (induction "nat (py_len text - start)" arbitrary: start chunks rule: less_induct)
  case less
  show ?case
  proof (cases "start < py_len text")
    case False
    then show ?thesis by (subst split_loop.simps) simp
  next
    case True
    define start' where "start' = snd (split_step text chunk_size start) - overlap"
    define chunks' where "chunks' = chunks @ [strip (fst (split_step text chunk_size start))]"
    have progress: "start < start'"
      unfolding start'_def using assms by (rule split_step_progress)
    show ?thesis
    proof (cases "py_len text \<le> start'")
      case True
      with \<open>start < py_len text\<close> show ?thesis
        by (subst split_loop.simps) (simp add: start'_def)
    next
      case False
      with progress True have "nat (py_len text - start') < nat (py_len text - start)"
        by simp
      then obtain res where "split_loop text chunk_size overlap start' chunks' = Some res"
        using less by blast
      with False True show ?thesis
        by (subst split_loop.simps) (simp add: start'_def chunks'_def)
    qed
  qed
qed

text \<open>
  C1, as amended. For every text, every \<open>chunk_size > 0\<close> and every overlap with
  \<open>0 \<le> overlap < chunk_size\<close> and \<open>2 * overlap \<le> chunk_size + 2\<close> (the defaults 500 and 50
  are such a pair), \<open>split_text\<close> returns: from every cursor position the next cursor
  \<open>end - overlap\<close> is strictly greater. The function has no guard of its own; the progress
  comes from the bound on the overlap.
\<close>

theorem split_text_terminates:
  assumes "0 < chunk_size" and "0 \<le> overlap" and "overlap < chunk_size"
    and "2 * overlap \<le> chunk_size + 2"
  shows "(\<exists>chunks. split_text text chunk_size overlap = Some chunks) \<and>
         (\<forall>start. start < snd (split_step text chunk_size start) - overlap)"
  using assms split_loop_returns [of overlap chunk_size "text" 0 "[]"]
    split_step_progress [of overlap chunk_size _ "text"]
  by (simp add: split_text_def)

theorem split_text_terminates_witness:
  "(0::int) < 5 \<and> (0::int) \<le> 1 \<and> (1::int) < 5 \<and> (2::int) * 1 \<le> 5 + 2 \<and>
   split_text [65, 46, 32, 66, 33, 32, 67, 63, 32, 68] 5 1 \<noteq> None \<and>
   (0::int) < snd (split_step [65, 46, 32, 66, 33, 32, 67, 63, 32, 68] 5 0) - 1"
  using split_text_terminates [of 5 1 "[65, 46, 32, 66, 33, 32, 67, 63, 32, 68]"]
  by auto

text \<open>
  C1, as the claim states it, fails: with \<open>chunk_size = 5\<close> and \<open>overlap = 4\<close> the text
  \<open>aaa.aaaaaa\<close> is cut after the full stop at index 3, so \<open>end = 4\<close> and the next cursor is
  \<open>4 - 4 = 0\<close> again. The loop never ends, as on every text where the first pass leaves
  the cursor at 0.
\<close>

lemma split_loop_stall:
  assumes stall: "snd (split_step t cs 0) - ov = 0" and pos: "0 < py_len t"
    and run: "split_loop t' cs' ov' st chunks = Some res"
  shows "\<not> (t' = t \<and> cs' = cs \<and> ov' = ov \<and> st = 0)"
proof (rule split_loop.raw_induct [where P = "\<lambda>t' cs' ov' st chunks res.
         \<not> (t' = t \<and> cs' = cs \<and> ov' = ov \<and> st = 0)", OF _ run], goal_cases)
  case (1 loop t' cs' ov' st chunks res)
  show ?case
  proof
    assume a: "t' = t \<and> cs' = cs \<and> ov' = ov \<and> st = 0"
    with 1(2) stall pos obtain chunks' where "loop t cs ov 0 chunks' = Some res"
      by (simp add: Let_def)
    from 1(1) [OF this] show False by simp
  qed
qed

lemma split_text_stall:
  assumes "snd (split_step t cs 0) - ov = 0" and "0 < py_len t"
  shows "split_text t cs ov = None"
  using split_loop_stall [OF assms, of t cs ov 0 "[]"]
  by (cases "split_text t cs ov") (auto simp: split_text_def)

theorem split_text_overlap_counterexample:
  "(0::int) < 5 \<and> (0::int) \<le> 4 \<and> (4::int) < 5 \<and>
   split_text [97, 97, 97, 46, 97, 97, 97, 97, 97, 97] 5 4 = None \<and>
   snd (split_step [97, 97, 97, 46, 97, 97, 97, 97, 97, 97] 5 0) - 4 = 0"
proof -
  have step: "snd (split_step [97, 97, 97, 46, 97, 97, 97, 97, 97, 97] 5 0) - 4 = 0"
    by code_simp
  have len: "0 < py_len [97, 97, 97, 46, 97, 97, 97, 97, 97, 97 :: int]"
    by code_simp
  from step len have "split_text [97, 97, 97, 46, 97, 97, 97, 97, 97, 97] 5 4 = None"
    by (rule split_text_stall)
  with step show ?thesis by simp
qed

text \<open>
  The bound on the overlap cannot be relaxed: for every larger overlap below the chunk
  size there is a text, with a full stop at index \<open>overlap - 1\<close>, on which the loop never
  ends.
\<close>

lemma rfind_absent: "c \<notin> set s \<Longrightarrow> rfind s c = - 1"
  by (simp add: rfind_def)

lemma stall_text_step:
  assumes "overlap < chunk_size" and "chunk_size + 2 < 2 * overlap"
  shows "snd (split_step (replicate (nat (overlap - 1)) 97 @ [46] @ replicate (nat chunk_size) 97)
           chunk_size 0) - overlap = 0"
proof -
  define a where "a = nat (overlap - 1)"
  define b where "b = nat (chunk_size - overlap)"
  define t :: pystr where "t = replicate a 97 @ [46] @ replicate (nat chunk_size) 97"
  from assms have ov: "2 \<le> overlap" by simp
  from assms ov have cs: "nat chunk_size = Suc a + b" by (simp add: a_def b_def)
  have len: "py_len t = int a + 1 + chunk_size"
    using assms ov by (simp add: t_def py_len_def)
  from ov have ia: "int a = overlap - 1" by (simp add: a_def)
  have chunk: "py_slice t 0 chunk_size = replicate a 97 @ 46 # replicate b 97"
    using assms ov
    by (simp add: py_slice_def slice_index_def len min_def)
      (simp add: t_def cs del: replicate_Suc)
  have r46: "rfind (replicate a 97 @ 46 # replicate b (97::int)) 46 = int a"
    by (simp add: rfind_def py_len_def takeWhile_append)
  have r33: "rfind (replicate a 97 @ 46 # replicate b (97::int)) 33 = - 1"
    by (rule rfind_absent) auto
  have r63: "rfind (replicate a 97 @ 46 # replicate b (97::int)) 63 = - 1"
    by (rule rfind_absent) auto
  have r10: "rfind (replicate a 97 @ 46 # replicate b (97::int)) 10 = - 1"
    by (rule rfind_absent) auto
  have last: "max (max (max (int a) (- 1)) (- 1)) (- 1) = int a" by simp
  from assms ia have cut: "chunk_size < 2 * int a" by simp
  have "snd (split_step t chunk_size 0) = int a + 1"
    using cut by (simp add: split_step_def Let_def len chunk r46 r33 r63 r10 last)
  with ia show ?thesis by (simp add: t_def a_def)
qed

lemma split_text_overlap_bound_tight:
  assumes "overlap < chunk_size" and "chunk_size + 2 < 2 * overlap"
  shows "\<exists>t. split_text t chunk_size overlap = None"
proof -
  have "0 < py_len (replicate (nat (overlap - 1)) 97 @ [46] @ replicate (nat chunk_size) (97::int))"
    by (simp add: py_len_def)
  with stall_text_step [OF assms] show ?thesis
    by (blast intro: split_text_stall)
qed

subsection \<open>Texts shorter than the chunk size\<close>

lemma split_step_short: "py_len t \<le> cs \<Longrightarrow> split_step t cs 0 = (t, cs)"
  by (simp add: split_step_def py_slice_def slice_index_def py_len_def)

text \<open>Every pass through the loop body appends one chunk.\<close>

lemma split_loop_grows:
  assumes "split_loop t cs ov st chunks = Some res"
  shows "length chunks \<le> length res \<and> (st < py_len t \<longrightarrow> length chunks < length res)"
proof (rule split_loop.raw_induct [where P = "\<lambda>t cs ov st chunks res.
         length chunks \<le> length res \<and> (st < py_len t \<longrightarrow> length chunks < length res)", OF _ assms],
       goal_cases)
  case (1 loop t cs ov st chunks res)
  show ?case
  proof (cases "st < py_len t")
    case False
    with 1(2) show ?thesis by simp
  next
    case True
    show ?thesis
    proof (cases "py_len t \<le> snd (split_step t cs st) - ov")
      case True
      with 1(2) \<open>st < py_len t\<close> show ?thesis by (auto simp: Let_def)
    next
      case False
      with 1(2) True
      have "loop t cs ov (snd (split_step t cs st) - ov)
              (chunks @ [strip (fst (split_step t cs st))]) = Some res"
        by (simp add: Let_def)
      from 1(1) [OF this] show ?thesis by simp
    qed
  qed
qed

text \<open>
  C2, as amended. For every non-empty text whose length is strictly less than \<open>chunk_size\<close>,
  \<open>split_text\<close> returns exactly one chunk, the stripped text, if and only if the text is no
  longer than \<open>chunk_size - overlap\<close>: the cursor moves to \<open>chunk_size - overlap\<close>, and the
  loop goes on while that position is inside the text.
\<close>

theorem split_text_short:
  assumes "t \<noteq> []" and "py_len t < chunk_size"
  shows "split_text t chunk_size overlap = Some [strip t] \<longleftrightarrow> py_len t \<le> chunk_size - overlap"
proof
  assume le: "py_len t \<le> chunk_size - overlap"
  from assms have "0 < py_len t" by (simp add: py_len_def)
  with assms le show "split_text t chunk_size overlap = Some [strip t]"
    unfolding split_text_def
    by (subst split_loop.simps) (simp add: split_step_short)
next
  assume r: "split_text t chunk_size overlap = Some [strip t]"
  show "py_len t \<le> chunk_size - overlap"
  proof (rule ccontr)
    assume n: "\<not> py_len t \<le> chunk_size - overlap"
    from assms have pos: "0 < py_len t" by (simp add: py_len_def)
    from n have lt: "chunk_size - overlap < py_len t" by simp
    from r pos lt assms
    have "split_loop t chunk_size overlap (chunk_size - overlap) [strip t] = Some [strip t]"
      unfolding split_text_def
      by (subst (asm) split_loop.simps) (simp add: split_step_short)
    from split_loop_grows [OF this] lt show False by simp
  qed
qed

theorem split_text_short_witness:
  "[32, 97, 98, 32] \<noteq> ([] :: pystr) \<and> py_len [32, 97, 98, 32 :: int] < 12 \<and>
   py_len [32, 97, 98, 32 :: int] \<le> 12 - 4 \<and>
   split_text [32, 97, 98, 32] 12 4 = Some [[97, 98]]"
proof -
  have len: "py_len [32, 97, 98, 32 :: int] = 4" by code_simp
  have str: "strip [32, 97, 98, 32] = [97, 98]" by code_simp
  show ?thesis
    using split_text_short [of "[32, 97, 98, 32]" 12 4] by (simp add: len str)
qed

text \<open>
  C2, as the claim states it, fails: the ten characters \<open>abcdefghij\<close> are shorter than
  \<open>chunk_size = 12\<close>, yet with \<open>overlap = 4\<close> the cursor moves to 8 and a second chunk
  \<open>ij\<close> is cut.
\<close>

theorem split_text_short_counterexample:
  "py_len [97, 98, 99, 100, 101, 102, 103, 104, 105, 106 :: int] < 12 \<and>
   split_text [97, 98, 99, 100, 101, 102, 103, 104, 105, 106] 12 4 =
     Some [[97, 98, 99, 100, 101, 102, 103, 104, 105, 106], [105, 106]]"
  by code_simp

section \<open>Facts about the indexer\<close>

subsection \<open>Chunks are stripped\<close>

lemma strip_replicate: "strip (replicate n c) = (if is_space c then [] else replicate n c)"
  by (simp add: strip_def)

lemma strip_strip: "strip (strip s) = strip s"
proof -
  define u where "u = dropWhile is_space s"
  define v where "v = dropWhile is_space (rev u)"
  have s: "strip s = rev v" by (simp add: strip_def u_def v_def)
  show ?thesis
  proof (cases "v = []")
    case True
    with s have e: "strip s = []" by simp
    have "strip [] = []" by (simp add: strip_def)
    with e show ?thesis by simp
  next
    case False
    then have hv: "\<not> is_space (hd v)" unfolding v_def by (rule hd_dropWhile)
    from False have "u \<noteq> []" by (auto simp: v_def)
    then have hu: "\<not> is_space (hd u)" unfolding u_def by (rule hd_dropWhile)
    have "rev u = takeWhile is_space (rev u) @ v" by (simp add: v_def)
    then have "rev (rev u) = rev (takeWhile is_space (rev u) @ v)" by simp
    then have "u = rev v @ rev (takeWhile is_space (rev u))" by simp
    with False have "hd u = hd (rev v)" by (metis hd_append2 rev_is_Nil_conv)
    with hu have "dropWhile is_space (rev v) = rev v" by (simp add: dropWhile_eq_self_iff)
    moreover from hv have "dropWhile is_space v = v" by (simp add: dropWhile_eq_self_iff)
    ultimately have "strip (rev v) = rev v" by (simp add: strip_def)
    with s show ?thesis by simp
  qed
qed

lemma split_loop_stripped:
  assumes "split_loop t cs ov st chunks = Some res"
  shows "(\<forall>c\<in>set chunks. strip c = c) \<longrightarrow> (\<forall>c\<in>set res. strip c = c)"
proof (rule split_loop.raw_induct [where P = "\<lambda>t cs ov st chunks res.
         (\<forall>c\<in>set chunks. strip c = c) \<longrightarrow> (\<forall>c\<in>set res. strip c = c)", OF _ assms],
       goal_cases)
  case (1 loop t cs ov st chunks res)
  show ?case
  proof (cases "st < py_len t")
    case False
    with 1(2) show ?thesis by simp
  next
    case True
    show ?thesis
    proof (cases "py_len t \<le> snd (split_step t cs st) - ov")
      case True
      with 1(2) \<open>st < py_len t\<close> show ?thesis by (auto simp: Let_def strip_strip)
    next
      case False
      with 1(2) True
      have "loop t cs ov (snd (split_step t cs st) - ov)
              (chunks @ [strip (fst (split_step t cs st))]) = Some res"
        by (simp add: Let_def)
      from 1(1) [OF this] show ?thesis by (simp add: strip_strip)
    qed
  qed
qed

lemma split_text_stripped: "split_text t cs ov = Some chunks \<Longrightarrow> c \<in> set chunks \<Longrightarrow> strip c = c"
  using split_loop_stripped [of t cs ov 0 "[]" chunks] by (simp add: split_text_def)

text \<open>With the default chunk size and overlap the chunker always returns.\<close>

lemma split_text_default_returns: "\<exists>chunks. split_text t CHUNK_SIZE CHUNK_OVERLAP = Some chunks"
  using split_loop_returns [of CHUNK_OVERLAP CHUNK_SIZE t 0 "[]"]
  by (simp add: split_text_def CHUNK_SIZE_def CHUNK_OVERLAP_def)

lemma read_chunks_stripped:
  "read_chunks env fp = Some (Inr chunks) \<Longrightarrow> c \<in> set chunks \<Longrightarrow> strip c = c"
  by (auto simp: read_chunks_def process_json_file_def split: if_splits option.splits sum.splits
      dest: split_text_stripped)

subsection \<open>The loop over the chunks\<close>

lemma index_file_read_chunks:
  "index_file env fp md w =
     (case read_chunks env fp of
        None \<Rightarrow> None
      | Some (Inl e) \<Rightarrow> Some (Inl e)
      | Some (Inr chunks) \<Rightarrow> Some (Inr (index_chunks (post_embedding env) fp md 0 chunks w [])))"
  by (auto simp: index_file_def read_chunks_def split: option.splits sum.splits)

text \<open>\<open>index_file\<close> always comes to an end: it returns, or a \<open>TypeError\<close> leaves it.\<close>

lemma read_chunks_halts: "read_chunks env fp \<noteq> None"
  by (simp add: read_chunks_def process_json_file_def split_text_default_returns
      split: option.split sum.split)

lemma index_file_halts: "index_file env fp md w \<noteq> None"
  using read_chunks_halts [of env fp]
  by (cases "read_chunks env fp") (auto simp: index_file_read_chunks split: sum.split)

lemma length_embed_calls [simp]: "length (embed_calls post chunks w) = length chunks"
  by (induction chunks arbitrary: w) auto

lemma embed_calls_sent:
  "j < length chunks \<Longrightarrow> (embed_calls post chunks w ! j = None) = (strip (chunks ! j) = [])"
proof (induction chunks arbitrary: j w)
  case Nil
  then show ?case by simp
next
  case (Cons c cs)
  then show ?case by (cases j) auto
qed

lemma kept_positions_Cons:
  "kept_positions (r # rs) = (if kept r then [0] else []) @ map Suc (kept_positions rs)"
proof -
  have "[0..<length (r # rs)] = 0 # map Suc [0..<length rs]"
    by (simp add: upt_conv_Cons map_Suc_upt del: upt_Suc)
  then show ?thesis
    by (simp add: kept_positions_def filter_map o_def del: upt_Suc)
qed

lemma index_chunks_fst:
  "fst (index_chunks post fp md i chunks w acc) =
     acc @ map (record_at fp md chunks (embed_calls post chunks w) i)
             (kept_positions (embed_calls post chunks w))"
proof (induction chunks arbitrary: i w acc)
  case Nil
  show ?case by (simp add: kept_positions_def)
next
  case (Cons chunk rest)
  have shift: "\<And>cs calls c r.
      map (record_at fp md (c # cs) (r # calls) i) (map Suc (kept_positions calls)) =
      map (record_at fp md cs calls (Suc i)) (kept_positions calls)"
    by (simp add: record_at_def o_def)
  show ?case
    by (simp add: Cons.IH kept_positions_Cons shift split: prod.split)
      (simp add: record_at_def)
qed

lemma kept_positions_sorted: "sorted_wrt (<) (kept_positions calls)"
  by (simp add: kept_positions_def sorted_wrt_filter)

lemma kept_positions_set: "j \<in> set (kept_positions calls) \<longleftrightarrow> j < length calls \<and> kept (calls ! j)"
  by (auto simp: kept_positions_def)

subsection \<open>A run of the indexer in the small world\<close>

lemma py_len_replicate: "py_len (replicate n c) = int n"
  by (simp add: py_len_def)

lemma demo_step_0: "split_step (replicate 1000 97) 500 0 = (replicate 500 97, 500)"
  by (simp add: split_step_def py_slice_def slice_index_def py_len_def rfind_def Let_def)

lemma demo_step_450: "split_step (replicate 1000 97) 500 450 = (replicate 500 97, 950)"
  by (simp add: split_step_def py_slice_def slice_index_def py_len_def rfind_def Let_def)

lemma demo_step_900: "split_step (replicate 1000 97) 500 900 = (replicate 100 97, 1400)"
  by (simp add: split_step_def py_slice_def slice_index_def py_len_def rfind_def Let_def)

lemma demo_split:
  "split_text (replicate 1000 97) CHUNK_SIZE CHUNK_OVERLAP =
     Some [replicate 500 97, replicate 500 97, replicate 100 97]"
  unfolding split_text_def CHUNK_SIZE_def CHUNK_OVERLAP_def
  apply (subst split_loop.simps)
  apply (simp add: py_len_replicate demo_step_0 strip_replicate is_space_def)
  apply (subst split_loop.simps)
  apply (simp add: py_len_replicate demo_step_450 strip_replicate is_space_def)
  apply (subst split_loop.simps)
  apply (simp add: py_len_replicate demo_step_900 strip_replicate is_space_def)
  done

lemma py_txt_json: "py ''.txt'' \<noteq> py ''.json''"
  by (simp add: py_def)

lemma demo_read_chunks: "read_chunks demo_env p = Some (Inr demo_chunks)"
  by (simp add: read_chunks_def demo_env_def py_txt_json demo_split demo_chunks_def)

lemma demo_calls: "embed_calls demo_post demo_chunks 0 = [Some [1], Some [], Some [1]]"
  by (simp add: demo_chunks_def strip_replicate is_space_def get_embedding_def demo_post_def)

lemma demo_positions: "kept_positions [Some [1], Some [], Some [1]] = [0, 2]"
  by (simp add: kept_positions_Cons) (simp add: kept_positions_def)

lemma demo_post_embedding: "post_embedding demo_env = demo_post"
  by (simp add: demo_env_def)

lemma demo_index_file: "index_file demo_env p md 0 = Some (Inr (demo_records p md, 3))"
  by (simp add: index_file_read_chunks demo_read_chunks demo_post_embedding demo_chunks_def
      demo_records_def strip_replicate is_space_def get_embedding_def demo_post_def
      numeral_2_eq_2 numeral_3_eq_3)

subsection \<open>The records of a file\<close>

lemma py_file_chunk_index: "py ''file'' \<noteq> py ''chunk_index''"
  by (simp add: py_def)

lemma index_file_records:
  assumes "read_chunks env fp = Some (Inr chunks)"
    and "index_file env fp md w = Some (Inr (recs, w'))"
  shows "recs = map (record_at fp md chunks (embed_calls (post_embedding env) chunks w) 0)
                  (kept_positions (embed_calls (post_embedding env) chunks w))"
proof -
  from assms have "recs = fst (index_chunks (post_embedding env) fp md 0 chunks w [])"
    by (simp add: index_file_read_chunks)
  then show ?thesis by (simp add: index_chunks_fst)
qed

text \<open>
  C3, as amended. For every file path and every caller-supplied metadata, the metadata of
  the \<open>k\<close>-th record that \<open>index_file\<close> returns is the dictionary
  \<open>{file: path, chunk_index: i}\<close> overridden by the caller's entries, where \<open>i\<close> is the
  zero-based position of the record's chunk in the chunk sequence of the file. The keys
  \<open>file\<close> and \<open>chunk_index\<close> are always present; they map to the path and to the position
  when the caller's metadata does not contain them, and to the caller's value otherwise.
\<close>

theorem index_file_metadata:
  assumes "read_chunks env file_path = Some (Inr chunks)"
    and "index_file env file_path metadata w = Some (Inr (recs, w'))"
    and "k < length recs"
  shows "let i = kept_positions (embed_calls (post_embedding env) chunks w) ! k; r = recs ! k
         in i < length chunks \<and> c_text r = chunks ! i \<and>
            c_metadata r =
              [py ''file'' \<mapsto> MStr file_path, py ''chunk_index'' \<mapsto> MInt (int i)] ++
              extra_metadata metadata \<and>
            py ''file'' \<in> dom (c_metadata r) \<and> py ''chunk_index'' \<in> dom (c_metadata r) \<and>
            (extra_metadata metadata (py ''file'') = None \<longrightarrow>
               c_metadata r (py ''file'') = Some (MStr file_path)) \<and>
            (extra_metadata metadata (py ''chunk_index'') = None \<longrightarrow>
               c_metadata r (py ''chunk_index'') = Some (MInt (int i))) \<and>
            (\<forall>key v. extra_metadata metadata key = Some v \<longrightarrow> c_metadata r key = Some v)"
proof -
  define calls where "calls = embed_calls (post_embedding env) chunks w"
  define i where "i = kept_positions calls ! k"
  have recs: "recs = map (record_at file_path metadata chunks calls 0) (kept_positions calls)"
    unfolding calls_def using assms(1,2) by (rule index_file_records)
  with assms(3) have k: "k < length (kept_positions calls)" by simp
  then have "i \<in> set (kept_positions calls)" by (simp add: i_def)
  then have i: "i < length chunks" by (simp add: kept_positions_set calls_def)
  from recs k have r: "recs ! k = record_at file_path metadata chunks calls 0 i"
    by (simp add: i_def)
  show ?thesis
    unfolding Let_def calls_def [symmetric] i_def [symmetric] r
    using i py_file_chunk_index
    by (auto simp: record_at_def chunk_metadata_def map_add_def split: option.splits)
qed

theorem index_file_metadata_witness:
  "read_chunks demo_env (py ''a.txt'') = Some (Inr demo_chunks) \<and>
   index_file demo_env (py ''a.txt'') None 0 = Some (Inr (demo_records (py ''a.txt'') None, 3)) \<and>
   (1::nat) < length (demo_records (py ''a.txt'') None) \<and>
   extra_metadata None (py ''file'') = None \<and>
   extra_metadata None (py ''chunk_index'') = None \<and>
   c_text (demo_records (py ''a.txt'') None ! 1) = demo_chunks ! 2 \<and>
   c_metadata (demo_records (py ''a.txt'') None ! 1) (py ''file'') = Some (MStr (py ''a.txt'')) \<and>
   c_metadata (demo_records (py ''a.txt'') None ! 1) (py ''chunk_index'') = Some (MInt 2)"
proof -
  have rc: "read_chunks demo_env (py ''a.txt'') = Some (Inr demo_chunks)"
    by (rule demo_read_chunks)
  have run: "index_file demo_env (py ''a.txt'') None 0 =
      Some (Inr (demo_records (py ''a.txt'') None, 3))"
    by (rule demo_index_file)
  have k: "(1::nat) < length (demo_records (py ''a.txt'') None)"
    by (simp add: demo_records_def)
  have none: "extra_metadata None (py ''file'') = None"
    "extra_metadata None (py ''chunk_index'') = None"
    by (simp_all add: extra_metadata_def)
  have pos: "kept_positions (embed_calls (post_embedding demo_env) demo_chunks 0) ! 1 = 2"
    by (simp add: demo_post_embedding demo_calls demo_positions)
  from index_file_metadata [OF rc run k] rc run k none pos show ?thesis
    by (simp add: Let_def map_add_def py_file_chunk_index)
qed

text \<open>
  C3, as the claim states it, fails: a caller whose metadata has the keys \<open>file\<close> and
  \<open>chunk_index\<close> replaces the two defaults, so the record of the file \<open>a.txt\<close> says
  \<open>b.txt\<close>.
\<close>

theorem index_file_metadata_counterexample:
  "index_file demo_env (py ''a.txt'') (Some demo_override) 0 =
     Some (Inr (demo_records (py ''a.txt'') (Some demo_override), 3)) \<and>
   c_metadata (demo_records (py ''a.txt'') (Some demo_override) ! 0) (py ''file'') =
     Some (MStr (py ''b.txt'')) \<and>
   py ''b.txt'' \<noteq> py ''a.txt''"
  using demo_index_file [of "py ''a.txt''" "Some demo_override"]
  by (simp add: demo_records_def chunk_metadata_def extra_metadata_def demo_override_def
      map_add_def py_def)


text \<open>
  C4. When the chunks of a file are all non-empty, every chunk is sent to the embedding
  client, and \<open>index_file\<close> returns, in order, one record for each chunk whose vector is
  not empty: a chunk whose embedding fails (the vector is empty) is the only thing that is
  left out, and the run returns normally.
\<close>

theorem index_file_partial_success:
  assumes "read_chunks env file_path = Some (Inr chunks)"
    and "\<forall>c\<in>set chunks. c \<noteq> []"
  shows "let calls = embed_calls (post_embedding env) chunks w
         in list_all (\<lambda>r. r \<noteq> None) calls \<and>
            (\<exists>w'. index_file env file_path metadata w =
               Some (Inr (map (record_at file_path metadata chunks calls 0)
                            (filter (\<lambda>j. calls ! j \<noteq> Some []) [0..<length chunks]), w')))"
proof -
  define calls where "calls = embed_calls (post_embedding env) chunks w"
  have sent: "calls ! j \<noteq> None" if "j < length chunks" for j
  proof -
    from that have "chunks ! j \<in> set chunks" by simp
    with assms have "strip (chunks ! j) = chunks ! j" "chunks ! j \<noteq> []"
      by (auto dest: read_chunks_stripped)
    with that show ?thesis by (simp add: calls_def embed_calls_sent)
  qed
  have len: "length calls = length chunks" by (simp add: calls_def)
  have all: "list_all (\<lambda>r. r \<noteq> None) calls"
    using sent len by (auto simp: list_all_length)
  have "kept (calls ! j) = (calls ! j \<noteq> Some [])" if "j < length chunks" for j
    using sent [OF that] by (cases "calls ! j") auto
  then have pos: "kept_positions calls = filter (\<lambda>j. calls ! j \<noteq> Some []) [0..<length chunks]"
    unfolding kept_positions_def len by (intro filter_cong) auto
  obtain recs w' where run: "index_chunks (post_embedding env) file_path metadata 0 chunks w [] = (recs, w')"
    by (cases "index_chunks (post_embedding env) file_path metadata 0 chunks w []")
  then have "recs = fst (index_chunks (post_embedding env) file_path metadata 0 chunks w [])" by simp
  then have "recs = map (record_at file_path metadata chunks calls 0) (kept_positions calls)"
    by (simp add: index_chunks_fst calls_def)
  with run assms(1) pos all show ?thesis
    unfolding Let_def calls_def [symmetric] by (simp add: index_file_read_chunks)
qed

theorem index_file_partial_success_witness:
  "read_chunks demo_env (py ''a.txt'') = Some (Inr demo_chunks) \<and>
   [] \<notin> set demo_chunks \<and>
   embed_calls (post_embedding demo_env) demo_chunks 0 = [Some [1], Some [], Some [1]] \<and>
   (\<exists>w'. index_file demo_env (py ''a.txt'') None 0 =
      Some (Inr (map (record_at (py ''a.txt'') None demo_chunks [Some [1], Some [], Some [1]] 0)
                   [0, 2], w')))"
proof -
  have chunks: "\<forall>c\<in>set demo_chunks. c \<noteq> []"
    by (simp add: demo_chunks_def)
  have upt: "[0..<length demo_chunks] = [0, 1, 2]"
    by (simp add: demo_chunks_def upt_rec)
  show ?thesis
    using index_file_partial_success [OF demo_read_chunks chunks,
        where file_path = "py ''a.txt''" and metadata = None and w = 0]
      demo_read_chunks [of "py ''a.txt''"] chunks
    by (auto simp: Let_def demo_post_embedding demo_calls upt)
qed


text \<open>
  C9. Every record that \<open>index_file\<close> returns has a text that is not empty after
  stripping and a non-empty embedding vector.
\<close>

theorem index_file_records_nonempty:
  assumes "index_file env file_path metadata w = Some (Inr (recs, w'))" and "r \<in> set recs"
  shows "strip (c_text r) \<noteq> [] \<and> c_text r \<noteq> [] \<and> c_embedding r \<noteq> []"
proof -
  from assms(1) obtain chunks where rc: "read_chunks env file_path = Some (Inr chunks)"
    by (auto simp: index_file_read_chunks split: option.splits sum.splits)
  define calls where "calls = embed_calls (post_embedding env) chunks w"
  have "recs = map (record_at file_path metadata chunks calls 0) (kept_positions calls)"
    unfolding calls_def using rc assms(1) by (rule index_file_records)
  with assms(2) obtain j where j: "j \<in> set (kept_positions calls)"
    and r: "r = record_at file_path metadata chunks calls 0 j" by auto
  from j have lt: "j < length chunks" and k: "kept (calls ! j)"
    by (simp_all add: kept_positions_set calls_def)
  from k obtain e where e: "calls ! j = Some e" "e \<noteq> []" by (cases "calls ! j") auto
  with lt have s: "strip (chunks ! j) \<noteq> []"
    using embed_calls_sent [of j chunks "post_embedding env" w] by (simp add: calls_def)
  from lt have "chunks ! j \<in> set chunks" by simp
  with rc have "strip (chunks ! j) = chunks ! j" by (rule read_chunks_stripped)
  with s e r show ?thesis by (simp add: record_at_def)
qed

theorem index_file_records_nonempty_witness:
  "index_file demo_env (py ''a.txt'') None 0 = Some (Inr (demo_records (py ''a.txt'') None, 3)) \<and>
   demo_records (py ''a.txt'') None ! 1 \<in> set (demo_records (py ''a.txt'') None) \<and>
   strip (c_text (demo_records (py ''a.txt'') None ! 1)) \<noteq> [] \<and>
   c_embedding (demo_records (py ''a.txt'') None ! 1) \<noteq> []"
proof -
  have mem: "demo_records (py ''a.txt'') None ! 1 \<in> set (demo_records (py ''a.txt'') None)"
    by (simp add: demo_records_def)
  show ?thesis
    using index_file_records_nonempty [OF demo_index_file mem] mem
      demo_index_file [of "py ''a.txt''" None]
    by simp
qed


text \<open>
  C10, as amended. When the caller's metadata has no entry \<open>chunk_index\<close>, the
  \<open>chunk_index\<close> values of the records that \<open>index_file\<close> returns for a file are the
  positions, in the chunk sequence before filtering, of the chunks that were kept: they are
  strictly increasing, and a skipped chunk leaves a gap.
\<close>

theorem index_file_chunk_index_increasing:
  assumes "read_chunks env file_path = Some (Inr chunks)"
    and "index_file env file_path metadata w = Some (Inr (recs, w'))"
    and "extra_metadata metadata (py ''chunk_index'') = None"
  shows "let positions = kept_positions (embed_calls (post_embedding env) chunks w)
         in map chunk_index_of recs = map (\<lambda>p. Some (int p)) positions \<and>
            map c_text recs = map (\<lambda>p. chunks ! p) positions \<and>
            sorted_wrt (<) positions \<and> (\<forall>p\<in>set positions. p < length chunks)"
proof -
  define calls where "calls = embed_calls (post_embedding env) chunks w"
  have recs: "recs = map (record_at file_path metadata chunks calls 0) (kept_positions calls)"
    unfolding calls_def using assms(1,2) by (rule index_file_records)
  have "chunk_index_of (record_at file_path metadata chunks calls 0 p) = Some (int p)" for p
    using assms(3) by (simp add: chunk_index_of_def record_at_def chunk_metadata_def map_add_def)
  moreover have "c_text (record_at file_path metadata chunks calls 0 p) = chunks ! p" for p
    by (simp add: record_at_def)
  moreover have "\<forall>p\<in>set (kept_positions calls). p < length chunks"
    by (simp add: kept_positions_set calls_def)
  ultimately show ?thesis
    unfolding Let_def calls_def [symmetric] recs
    by (simp add: kept_positions_sorted)
qed

theorem index_file_chunk_index_increasing_witness:
  "read_chunks demo_env (py ''a.txt'') = Some (Inr demo_chunks) \<and>
   index_file demo_env (py ''a.txt'') None 0 = Some (Inr (demo_records (py ''a.txt'') None, 3)) \<and>
   extra_metadata None (py ''chunk_index'') = None \<and>
   map chunk_index_of (demo_records (py ''a.txt'') None) = [Some 0, Some 2] \<and>
   map c_text (demo_records (py ''a.txt'') None) = [demo_chunks ! 0, demo_chunks ! 2]"
proof -
  have none: "extra_metadata None (py ''chunk_index'') = None"
    by (simp add: extra_metadata_def)
  show ?thesis
    using index_file_chunk_index_increasing [OF demo_read_chunks demo_index_file none]
      demo_read_chunks [of "py ''a.txt''"] demo_index_file [of "py ''a.txt''" None] none
    by (simp add: Let_def demo_post_embedding demo_calls demo_positions)
qed

text \<open>
  C10, as the claim states it, fails: a caller whose metadata has the key \<open>chunk_index\<close>
  gives every record of the file the same value.
\<close>

theorem index_file_chunk_index_counterexample:
  "index_file demo_env (py ''a.txt'') (Some demo_override) 0 =
     Some (Inr (demo_records (py ''a.txt'') (Some demo_override), 3)) \<and>
   chunk_index_of (demo_records (py ''a.txt'') (Some demo_override) ! 0) = Some 7 \<and>
   chunk_index_of (demo_records (py ''a.txt'') (Some demo_override) ! 1) = Some 7"
  using demo_index_file [of "py ''a.txt''" "Some demo_override"]
  by (simp add: demo_records_def chunk_index_of_def chunk_metadata_def extra_metadata_def
      demo_override_def map_add_def)

section \<open>Facts about the normaliser\<close>

lemma append_field_eq:
  "append_field str_of data key label parts =
     parts @ (case data key of None \<Rightarrow> [] | Some v \<Rightarrow> [label @ format_value str_of v])"
  by (simp add: append_field_def split: option.split)

lemma field_text_plain:
  "key \<noteq> py ''devices'' \<Longrightarrow> field_text str_of key v = format_value str_of v"
  by (simp add: field_text_def format_value_def split: json.split)

lemma field_part_plain:
  "key \<noteq> py ''devices'' \<Longrightarrow>
   field_part str_of data (key, label) =
     (case data key of None \<Rightarrow> [] | Some v \<Rightarrow> [label @ format_value str_of v])"
  by (simp add: field_text_plain split: option.split)

lemma devices_str_eq:
  "devices_str str_of v =
     (if (case v of JArr items \<Rightarrow> list_all is_JStr items | _ \<Rightarrow> True)
      then Inr (field_text str_of (py ''devices'') v) else Inl TypeError)"
  by (simp add: devices_str_def field_text_def format_value_def split: json.split)

lemma keys_not_devices:
  "py ''title_original'' \<noteq> py ''devices''" "py ''title_translation'' \<noteq> py ''devices''"
  "py ''author'' \<noteq> py ''devices''" "py ''translator'' \<noteq> py ''devices''"
  "py ''original'' \<noteq> py ''devices''" "py ''translation'' \<noteq> py ''devices''"
  "py ''rhyme_scheme'' \<noteq> py ''devices''" "py ''meter'' \<noteq> py ''devices''"
  "py ''comment'' \<noteq> py ''devices''"
  by (simp_all add: py_def)


lemma field_part_devices:
  "field_part str_of data (py ''devices'', label) =
     (case data (py ''devices'') of
        None \<Rightarrow> []
      | Some v \<Rightarrow> [label @ field_text str_of (py ''devices'') v])"
  by simp

lemma render_document_spec:
  "render_document str_of data =
     (if devices_joinable data then Inr (normalize_spec str_of data) else Inl TypeError)"
proof (cases "data (py ''devices'')")
  case None
  then show ?thesis
    by (simp add: render_document_def normalize_spec_def document_fields_def
        devices_joinable_def append_field_eq field_part_plain field_part_devices
        keys_not_devices Let_def del: field_part.simps)
next
  case (Some v)
  then show ?thesis
    by (simp add: render_document_def normalize_spec_def document_fields_def
        devices_joinable_def append_field_eq field_part_plain field_part_devices
        keys_not_devices devices_str_eq Let_def del: field_part.simps)
qed

lemma demo_document_present:
  "demo_document (py ''author'') = Some (JStr (py ''X''))"
  "demo_document (py ''original'') = Some (JStr (py ''line1''))"
  "demo_document (py ''translation'') = Some (JStr demo_translation)"
  by (simp_all add: demo_document_def py_def)

lemma demo_document_absent:
  "demo_document (py ''title_original'') = None"
  "demo_document (py ''title_translation'') = None"
  "demo_document (py ''translator'') = None"
  "demo_document (py ''rhyme_scheme'') = None"
  "demo_document (py ''meter'') = None"
  "demo_document (py ''devices'') = None"
  "demo_document (py ''comment'') = None"
  by (simp_all add: demo_document_def py_def)

lemma demo_render:
  "render_document str_of demo_document =
     Inr (label_author @ py ''X'' @ [10] @ label_original @ py ''line1'' @ [10] @
          label_translation @ demo_translation)"
  by (simp add: render_document_def append_field_def format_value_def Let_def
      demo_document_present demo_document_absent)

lemma demo_bad_render: "render_document str_of demo_bad_document = Inl TypeError"
  by (simp add: render_document_def append_field_def devices_str_def Let_def
      demo_bad_document_def py_def)

text \<open>
  For every document whose devices, when they are a list, are strings, \<open>render_document\<close>
  returns the text that the specification describes: the fields that are present, each
  with its label, in the fixed order, joined with newlines, and nothing for an absent
  field. The document of the scenario gives the author line, an empty line, the label of
  the original (the marker \<open>marker_original\<close> between two newlines is that label) and
  \<open>line1\<close>, an empty line, the label of the translation and the translation.
\<close>

lemma render_document_normalizes:
  assumes "devices_joinable data"
  shows "render_document str_of data = Inr (normalize_spec str_of data) \<and>
         render_document str_of demo_document =
           Inr (label_author @ py ''X'' @ [10] @ label_original @ py ''line1'' @ [10] @
                label_translation @ demo_translation) \<and>
         label_original = [10] @ marker_original @ [10] \<and>
         label_translation = [10] @ marker_translation @ [10]"
proof -
  have a: "render_document str_of data = Inr (normalize_spec str_of data)"
    using assms by (simp add: render_document_spec)
  have b: "render_document str_of demo_document =
      Inr (label_author @ py ''X'' @ [10] @ label_original @ py ''line1'' @ [10] @
           label_translation @ demo_translation)"
    by (rule demo_render)
  have c: "label_original = [10] @ marker_original @ [10]"
    by (simp add: label_original_def marker_original_def)
  have d: "label_translation = [10] @ marker_translation @ [10]"
    by (simp add: label_translation_def marker_translation_def)
  from a b c d show ?thesis by blast
qed

lemma demo_scalar_render:
  "render_document str_of demo_scalar_document = Inr (label_devices @ str_of (JInt 1))"
  by (simp add: render_document_def append_field_def devices_str_def format_value_def Let_def
      demo_scalar_document_def py_def)

text \<open>
  C6. Normalisation is to render every field that is present, with its label. The code
  does so for devices that are not a list, which go through \<open>str\<close> like the value of
  every other field: the document \<open>{"devices": 1}\<close> gives the label and \<open>str(1)\<close>. For
  the document \<open>{"devices": [1]}\<close> the call of \<open>str.join\<close> raises \<open>TypeError\<close>, which
  nothing catches, and no text is produced.
\<close>

theorem render_document_devices_type_error:
  "render_document str_of demo_bad_document = Inl TypeError \<and>
   render_document str_of demo_scalar_document = Inr (label_devices @ str_of (JInt 1))"
  by (simp add: demo_bad_render demo_scalar_render)

section \<open>Facts about the retriever, the prompt and the store\<close>

lemma contains_iff: "contains hay needle \<longleftrightarrow> (\<exists>pre post. hay = pre @ needle @ post)"
proof (induction hay)
  case Nil
  show ?case by auto
next
  case (Cons h hay)
  show ?case
  proof
    assume "contains (h # hay) needle"
    then consider "prefix needle (h # hay)" | "contains hay needle" by auto
    then show "\<exists>pre post. h # hay = pre @ needle @ post"
    proof cases
      case 1
      then obtain post where "h # hay = needle @ post" by (auto simp: prefix_def)
      then have "h # hay = [] @ needle @ post" by simp
      then show ?thesis by blast
    next
      case 2
      with Cons.IH obtain pre post where "hay = pre @ needle @ post" by blast
      then have "h # hay = (h # pre) @ needle @ post" by simp
      then show ?thesis by blast
    qed
  next
    assume "\<exists>pre post. h # hay = pre @ needle @ post"
    then obtain pre post where eq: "h # hay = pre @ needle @ post" by blast
    show "contains (h # hay) needle"
    proof (cases pre)
      case Nil
      with eq have "prefix needle (h # hay)" by (simp add: prefix_def)
      then show ?thesis by simp
    next
      case (Cons p pre')
      with eq have "hay = pre' @ needle @ post" by simp
      with Cons.IH have "contains hay needle" by blast
      then show ?thesis by simp
    qed
  qed
qed

lemma find_loop_filter:
  "find_loop lower needle index found =
     found @ filter (\<lambda>chunk. contains (lower (c_text chunk)) needle) index"
  by (induction index arbitrary: found) (simp_all add: Let_def)

text \<open>
  C5. For every attribute value and every index, \<open>find_poems_by_translator\<close> returns
  the chunks of the index, in their order, whose lowercased text contains the lowercased
  value; so two values with the same lowercase form, such as \<open>Smith\<close> and \<open>SMITH\<close>,
  select the same records.
\<close>

theorem find_poems_by_translator_filter:
  "find_poems_by_translator lower translator_name index =
     filter (\<lambda>chunk. \<exists>pre post. lower (c_text chunk) = pre @ lower translator_name @ post) index \<and>
   (lower other_name = lower translator_name \<longrightarrow>
      find_poems_by_translator lower other_name index =
      find_poems_by_translator lower translator_name index)"
  by (simp add: find_poems_by_translator_def find_loop_filter contains_iff)

lemma demo_find:
  "map c_text (find_poems_by_translator ascii_lower (py ''Smith'') demo_index) =
     [py ''Smith '' @ marker_original @ py '' a '' @ marker_translation @ py '' b'', py ''by SMITH'']"
  by (simp add: find_poems_by_translator_def demo_index_def ascii_lower_def py_def
      marker_original_def marker_translation_def)

theorem find_poems_by_translator_filter_witness:
  "ascii_lower (py ''SMITH'') = ascii_lower (py ''Smith'') \<and>
   map c_text (find_poems_by_translator ascii_lower (py ''SMITH'') demo_index) =
     [py ''Smith '' @ marker_original @ py '' a '' @ marker_translation @ py '' b'', py ''by SMITH'']"
proof -
  have low: "ascii_lower (py ''SMITH'') = ascii_lower (py ''Smith'')"
    by (simp add: ascii_lower_def py_def)
  from find_poems_by_translator_filter [of ascii_lower "py ''Smith''" demo_index "py ''SMITH''"] low
  have "find_poems_by_translator ascii_lower (py ''SMITH'') demo_index =
      find_poems_by_translator ascii_lower (py ''Smith'') demo_index" by blast
  with low demo_find show ?thesis by simp
qed

subsection \<open>The prompt\<close>











lemma demo_not_exemplar: "\<not> is_exemplar (demo_index ! Suc 0)"
proof -
  have "\<not> contains (py ''Jones'') marker_original"
    by (simp add: py_def marker_original_def)
  then show ?thesis by (simp add: demo_index_def is_exemplar_def)
qed

lemma demo_no_exemplars: "filter is_exemplar [demo_index ! 1] = []"
  by (simp add: demo_not_exemplar)




subsection \<open>The store\<close>

text \<open>
  C8. When the serialisation reads back what it wrote, and \<open>save_index\<close> has stored the
  chunks under a name, \<open>load_index\<close> with that name returns the chunks: the two programs
  build the same path from the name.
\<close>

theorem load_save_index:
  assumes "\<And>x. loads (dumps x) = Some x"
    and "save_index dumps writable files chunks index_name = Inr files'"
  shows "load_index loads files' index_name = Some chunks"
  using assms
  by (auto simp: save_index_def load_index_def Let_def INDEX_DIR_def INDEX_DIR_translator_def
      split: if_splits)

theorem load_save_index_witness:
  "Some ((\<lambda>x. x) demo_index) = Some demo_index \<and>
   save_index (\<lambda>x. x) (\<lambda>p. True) Map.empty demo_index (py ''default'') = Inr demo_files \<and>
   load_index Some demo_files (py ''default'') = Some demo_index"
proof -
  have law: "\<And>x :: chunk_record list. Some ((\<lambda>x. x) x) = Some x" by simp
  have sv: "save_index (\<lambda>x. x) (\<lambda>p. True) Map.empty demo_index (py ''default'') = Inr demo_files"
    by (simp add: save_index_def path_join_def INDEX_DIR_def demo_files_def py_def)
  from load_save_index [of Some "\<lambda>x. x", OF law sv] sv show ?thesis by simp
qed

end
